theory Spec2Isabelle
  imports Main
begin

section \<open>Errors and HTTP status codes\<close>

text \<open>
  The handlers report a failure by calling \<open>next(createError(status, message, errors))\<close>
  (\<open>utils/error.js\<close>), or by passing on an exception that a library has thrown
  (\<open>catch (error) { next(error) }\<close>). Both are values here.
\<close>

datatype status =
  BAD_REQUEST | UNAUTHORIZED | FORBIDDEN | NOT_FOUND | CONFLICT
  | UNPROCESSABLE_ENTITY | INTERNAL_SERVER_ERROR

datatype failure =
  ApiError status string "(string \<times> string) list"
  | Thrown string

definition createError :: "status \<Rightarrow> string \<Rightarrow> failure" where
  "createError statusCode message = ApiError statusCode message []"

section \<open>User records\<close>

text \<open>
  A user object as the controllers build it. The fields sent back to the client are the
  object without its \<open>password\<close> (\<open>const { password: _, ...userWithoutPassword } = user\<close>),
  so the record is split there: \<open>user_public.truncate\<close> is that destructuring.
  Fields that only some objects carry (\<open>googleId\<close>, \<open>avatar\<close>, \<open>emailVerified\<close>,
  \<open>lastLogin\<close>) are options, \<open>None\<close> for \<open>undefined\<close>; \<open>password\<close> is \<open>None\<close> for the
  \<open>null\<close> of a Google-created user. Timestamps are the clock reading in milliseconds, of
  which the source stores the ISO rendering.
\<close>

record user_public =
  id_user :: string
  name :: string
  email :: string
  googleId :: "string option"
  avatar :: "string option"
  role :: string
  isActive :: bool
  emailVerified :: "bool option"
  createdAt :: nat
  updatedAt :: nat
  lastLogin :: "nat option"

record user = user_public +
  password :: "string option"

text \<open>\<open>Date.now().toString()\<close>: the decimal rendering of the clock.\<close>

fun string_of_nat :: "nat \<Rightarrow> string" where
  "string_of_nat n =
     (if n < 10 then [char_of (48 + n)]
      else string_of_nat (n div 10) @ [char_of (48 + n mod 10)])"

declare string_of_nat.simps [simp del]

text \<open>
  \<open>users.find(p)\<close> returns a reference to the first stored object that satisfies \<open>p\<close>, and
  the handlers assign to its fields; \<open>users.findIndex(p)\<close> returns its position. Both are
  the position of the first match here, \<open>None\<close> for \<open>undefined\<close> and \<open>-1\<close>.
\<close>

fun findIndex :: "('a \<Rightarrow> bool) \<Rightarrow> 'a list \<Rightarrow> nat option" where
  "findIndex p [] = None"
| "findIndex p (x # xs) = (if p x then Some 0 else map_option Suc (findIndex p xs))"

text \<open>JavaScript truthiness of a string that may be absent: \<open>undefined\<close> and \<open>""\<close> are falsy.\<close>

fun truthy :: "string option \<Rightarrow> bool" where
  "truthy None = False"
| "truthy (Some s) = (s \<noteq> [])"

section \<open>Tokens\<close>

text \<open>
  A symbolic model of the \<open>jsonwebtoken\<close> library. A string presented as a token is either
  a well-formed JWT, which is its claims together with the key that signed it, or some other
  string. \<open>jwt.sign({ userId }, secret, { expiresIn })\<close> stamps \<open>iat\<close> with the clock in
  seconds and \<open>exp\<close> with \<open>iat + expiresIn\<close>; \<open>jwt.verify\<close> rejects a malformed string and
  a wrong signature with \<open>JsonWebTokenError\<close>, then a token whose \<open>exp\<close> is not after the
  clock with \<open>TokenExpiredError\<close>.
\<close>

record claims =
  userId :: string
  iat :: nat
  exp :: nat

datatype token = Raw string | Jwt claims string

datatype jwt_error = TokenExpiredError | JsonWebTokenError

definition jwt_sign :: "string \<Rightarrow> string \<Rightarrow> nat \<Rightarrow> nat \<Rightarrow> token" where
  "jwt_sign uid secret expiresIn now =
     Jwt \<lparr>userId = uid, iat = now div 1000, exp = now div 1000 + expiresIn\<rparr> secret"

fun jwt_verify :: "token \<Rightarrow> string \<Rightarrow> nat \<Rightarrow> jwt_error + claims" where
  "jwt_verify (Raw s) secret now = Inl JsonWebTokenError"
| "jwt_verify (Jwt c k) secret now =
     (if k \<noteq> secret then Inl JsonWebTokenError
      else if exp c \<le> now div 1000 then Inl TokenExpiredError
      else Inr c)"

text \<open>A token in a request is falsy when the field is missing or the empty string.\<close>

fun token_truthy :: "token option \<Rightarrow> bool" where
  "token_truthy None = False"
| "token_truthy (Some (Raw s)) = (s \<noteq> [])"
| "token_truthy (Some (Jwt c k)) = True"

section \<open>Configuration and libraries\<close>

text \<open>
  What the controllers take from outside: \<open>config.jwt\<close> (the secret and the access-token
  lifetime, in seconds), \<open>bcryptjs\<close> (hashing with a salt, and comparison of a plaintext with
  a hash), and the Google client (\<open>getToken\<close> exchanges a code for an id token,
  \<open>verifyIdToken\<close> gives the payload; \<open>None\<close> where the client throws).
\<close>

record google_payload =
  sub :: string
  email_g :: string
  name_g :: string
  picture :: "string option"

record env =
  jwt_secret :: string
  jwt_expiresIn :: nat
  bcrypt_hash :: "string \<Rightarrow> string \<Rightarrow> string"
  bcrypt_compare :: "string \<Rightarrow> string \<Rightarrow> bool"
  getToken :: "string \<Rightarrow> string option"
  verifyIdToken :: "string \<Rightarrow> google_payload option"

text \<open>The refresh-token lifetime \<open>'30d'\<close>, in seconds.\<close>

definition thirty_days :: nat where
  "thirty_days = 30 * 24 * 60 * 60"

section \<open>The auth controller\<close>

text \<open>
  \<open>const users = []\<close> of the auth controller is the store the handlers below take and
  return. Every handler takes the clock reading \<open>now\<close> of the request (the handler's reads
  of the clock are taken as one instant). The \<open>data\<close> object of a JSON response has the keys
  the handler gives it, the others absent.
\<close>

record data =
  user_data :: "user_public option"
  token_data :: "token option"
  refreshToken_data :: "token option"

definition generateToken :: "env \<Rightarrow> string \<Rightarrow> nat \<Rightarrow> token" where
  "generateToken E uid now = jwt_sign uid (jwt_secret E) (jwt_expiresIn E) now"

text \<open>The response of the handlers that log a user in: the user without the password, an
  access token and a 30-day refresh token for the user's id.\<close>

definition session :: "env \<Rightarrow> nat \<Rightarrow> user \<Rightarrow> data" where
  "session E now u =
     \<lparr>user_data = Some (user_public.truncate u),
      token_data = Some (generateToken E (id_user u) now),
      refreshToken_data = Some (jwt_sign (id_user u) (jwt_secret E) thirty_days now)\<rparr>"

definition signup ::
  "env \<Rightarrow> nat \<Rightarrow> string \<Rightarrow> string \<Rightarrow> string \<Rightarrow> string \<Rightarrow> user list
    \<Rightarrow> (failure + data) \<times> user list" where
  "signup E now salt nm em pw users =
     (case findIndex (\<lambda>u. email u = em) users of
        Some existingUser \<Rightarrow> (Inl (createError CONFLICT ''Email already in use''), users)
      | None \<Rightarrow>
          let hashedPassword = bcrypt_hash E pw salt;
              newUser = \<lparr>id_user = string_of_nat now, name = nm, email = em,
                         googleId = None, avatar = None, role = ''user'', isActive = True,
                         emailVerified = None, createdAt = now, updatedAt = now,
                         lastLogin = None, password = Some hashedPassword\<rparr>
          in (Inr (session E now newUser), users @ [newUser]))"

text \<open>
  \<open>bcrypt.compare\<close> throws on a hash that is not a string, which is what a Google-created
  user's \<open>password: null\<close> is; the handler's \<open>catch\<close> passes the exception on. The response
  carries the user as it was before \<open>lastLogin\<close> is assigned.
\<close>

definition signin ::
  "env \<Rightarrow> nat \<Rightarrow> string \<Rightarrow> string \<Rightarrow> user list \<Rightarrow> (failure + data) \<times> user list" where
  "signin E now em pw users =
     (case findIndex (\<lambda>u. email u = em) users of
        None \<Rightarrow> (Inl (createError UNAUTHORIZED ''Invalid credentials''), users)
      | Some i \<Rightarrow>
          let user = users ! i in
          if \<not> isActive user then (Inl (createError FORBIDDEN ''Account is deactivated''), users)
          else (case password user of
                  None \<Rightarrow> (Inl (Thrown ''Illegal arguments: string, object''), users)
                | Some h \<Rightarrow>
                    if \<not> bcrypt_compare E pw h
                    then (Inl (createError UNAUTHORIZED ''Invalid credentials''), users)
                    else (Inr (session E now user),
                          users[i := user\<lparr>lastLogin := Some now\<rparr>])))"

definition refreshToken :: "env \<Rightarrow> nat \<Rightarrow> token option \<Rightarrow> failure + data" where
  "refreshToken E now body_refreshToken =
     (case body_refreshToken of
        None \<Rightarrow> Inl (createError BAD_REQUEST ''Refresh token is required'')
      | Some t \<Rightarrow>
          if \<not> token_truthy (Some t)
          then Inl (createError BAD_REQUEST ''Refresh token is required'')
          else (case jwt_verify t (jwt_secret E) now of
                  Inl err \<Rightarrow> Inl (createError FORBIDDEN ''Invalid refresh token'')
                | Inr decoded \<Rightarrow>
                    Inr \<lparr>user_data = None,
                         token_data = Some (generateToken E (userId decoded) now),
                         refreshToken_data = None\<rparr>))"

text \<open>
  The lookup and the creation or linking of the user, which \<open>googleCallback\<close> (lines 253-276)
  and \<open>googleAuth\<close> (lines 323-346) both contain word for word. It returns the resolved
  user with the store.
\<close>

definition findOrCreateUser :: "nat \<Rightarrow> google_payload \<Rightarrow> user list \<Rightarrow> user \<times> user list" where
  "findOrCreateUser now payload users =
     (case findIndex (\<lambda>u. googleId u = Some (sub payload) \<or> email u = email_g payload) users of
        None \<Rightarrow>
          let user = \<lparr>id_user = string_of_nat now, name = name_g payload,
                      email = email_g payload, googleId = Some (sub payload),
                      avatar = picture payload, role = ''user'', isActive = True,
                      emailVerified = Some True, createdAt = now, updatedAt = now,
                      lastLogin = None, password = None\<rparr>
          in (user, users @ [user])
      | Some i \<Rightarrow>
          let user = users ! i in
          if \<not> truthy (googleId user)
          then (let linked = user\<lparr>googleId := Some (sub payload), updatedAt := now\<rparr>
                in (linked, users[i := linked]))
          else (user, users))"

datatype callback_response = CodeRequired | RedirectTokens data | RedirectError

definition googleCallback ::
  "env \<Rightarrow> nat \<Rightarrow> string option \<Rightarrow> user list \<Rightarrow> callback_response \<times> user list" where
  "googleCallback E now code users =
     (case code of
        None \<Rightarrow> (CodeRequired, users)
      | Some c \<Rightarrow>
          if \<not> truthy (Some c) then (CodeRequired, users)
          else (case getToken E c of
                  None \<Rightarrow> (RedirectError, users)
                | Some id_token \<Rightarrow>
                    (case verifyIdToken E id_token of
                       None \<Rightarrow> (RedirectError, users)
                     | Some payload \<Rightarrow>
                         let (user, users') = findOrCreateUser now payload users
                         in (RedirectTokens (session E now user), users'))))"

definition googleAuth ::
  "env \<Rightarrow> nat \<Rightarrow> string option \<Rightarrow> user list \<Rightarrow> (failure + data) \<times> user list" where
  "googleAuth E now credential users =
     (case credential of
        None \<Rightarrow> (Inl (createError BAD_REQUEST ''Credential is required''), users)
      | Some c \<Rightarrow>
          if \<not> truthy (Some c)
          then (Inl (createError BAD_REQUEST ''Credential is required''), users)
          else (case verifyIdToken E c of
                  None \<Rightarrow> (Inl (createError UNAUTHORIZED ''Google authentication failed''), users)
                | Some payload \<Rightarrow>
                    let (user, users') = findOrCreateUser now payload users
                    in (Inr (session E now user), users')))"

section \<open>The user controller\<close>

text \<open>
  \<open>const users = []\<close> of the user controller is a second array, of its own module. The
  handlers take the authenticated \<open>req.userId\<close> as \<open>uid\<close>.
\<close>

definition getCurrentUser :: "string \<Rightarrow> user list \<Rightarrow> failure + user_public" where
  "getCurrentUser uid users =
     (case findIndex (\<lambda>u. id_user u = uid) users of
        None \<Rightarrow> Inl (createError NOT_FOUND ''User not found'')
      | Some i \<Rightarrow> Inr (user_public.truncate (users ! i)))"

text \<open>\<open>a || b\<close> for a string \<open>a\<close> that may be absent.\<close>

fun or_else :: "string option \<Rightarrow> string \<Rightarrow> string" where
  "or_else None d = d"
| "or_else (Some s) d = (if s = [] then d else s)"

definition updateCurrentUser ::
  "nat \<Rightarrow> string \<Rightarrow> string option \<Rightarrow> string option \<Rightarrow> user list
    \<Rightarrow> (failure + string \<times> user_public) \<times> user list" where
  "updateCurrentUser now uid body_name body_email users =
     (case findIndex (\<lambda>u. id_user u = uid) users of
        None \<Rightarrow> (Inl (createError NOT_FOUND ''User not found''), users)
      | Some userIndex \<Rightarrow>
          if truthy body_email \<and> body_email \<noteq> Some (email (users ! userIndex))
             \<and> list_ex (\<lambda>u. Some (email u) = body_email \<and> id_user u \<noteq> uid) users
          then (Inl (createError CONFLICT ''Email already in use''), users)
          else
            let updatedUser = (users ! userIndex)
                  \<lparr>name := or_else body_name (name (users ! userIndex)),
                   email := or_else body_email (email (users ! userIndex)),
                   updatedAt := now\<rparr>
            in (Inr (''Profile updated successfully'', user_public.truncate updatedUser),
                users[userIndex := updatedUser]))"

definition deleteCurrentUser :: "string \<Rightarrow> user list \<Rightarrow> (failure + string) \<times> user list" where
  "deleteCurrentUser uid users =
     (case findIndex (\<lambda>u. id_user u = uid) users of
        None \<Rightarrow> (Inl (createError NOT_FOUND ''User not found''), users)
      | Some userIndex \<Rightarrow>
          (Inr ''Account deleted successfully'',
           take userIndex users @ drop (Suc userIndex) users))"

definition changePassword ::
  "env \<Rightarrow> nat \<Rightarrow> string \<Rightarrow> string \<Rightarrow> string \<Rightarrow> string \<Rightarrow> user list
    \<Rightarrow> (failure + string) \<times> user list" where
  "changePassword E now salt uid currentPassword newPassword users =
     (case findIndex (\<lambda>u. id_user u = uid) users of
        None \<Rightarrow> (Inl (createError NOT_FOUND ''User not found''), users)
      | Some userIndex \<Rightarrow>
          let user = users ! userIndex in
          (case password user of
             None \<Rightarrow> (Inl (Thrown ''Illegal arguments: string, object''), users)
           | Some h \<Rightarrow>
               if \<not> bcrypt_compare E currentPassword h
               then (Inl (createError UNAUTHORIZED ''Current password is incorrect''), users)
               else
                 let hashedPassword = bcrypt_hash E newPassword salt
                 in (Inr ''Password changed successfully'',
                     users[userIndex := user\<lparr>password := Some hashedPassword,
                                              updatedAt := now\<rparr>])))"

section \<open>The authentication middleware and the change-password route\<close>

text \<open>
  The \<open>Authorization\<close> header: \<open>Bearer t\<close> is the text \<open>"Bearer "\<close> followed by the text
  of \<open>t\<close>, \<open>NotBearer s\<close> a header that does not start so. \<open>authHeader.split(' ')[1]\<close> is
  what follows the first space up to the next one; a JWT has no space in it.
\<close>

datatype authorization = Bearer token | NotBearer string

fun second_word :: "token \<Rightarrow> token" where
  "second_word (Raw s) = Raw (takeWhile (\<lambda>c. c \<noteq> CHR '' '') s)"
| "second_word (Jwt c k) = Jwt c k"

definition authenticate :: "env \<Rightarrow> nat \<Rightarrow> authorization option \<Rightarrow> failure + string" where
  "authenticate E now authHeader =
     (case authHeader of
        None \<Rightarrow> Inl (createError UNAUTHORIZED ''No token provided'')
      | Some (NotBearer s) \<Rightarrow> Inl (createError UNAUTHORIZED ''No token provided'')
      | Some (Bearer t) \<Rightarrow>
          let token = second_word t in
          if \<not> token_truthy (Some token)
          then Inl (createError UNAUTHORIZED ''No token provided'')
          else (case jwt_verify token (jwt_secret E) now of
                  Inl err \<Rightarrow>
                    if err = TokenExpiredError
                    then Inl (createError UNAUTHORIZED ''Token expired'')
                    else Inl (createError UNAUTHORIZED ''Invalid token'')
                | Inr decoded \<Rightarrow> Inr (userId decoded)))"

text \<open>The character classes of the route's \<open>matches(/[a-z]/)\<close>, \<open>/[A-Z]/\<close>, \<open>/[0-9]/\<close>.\<close>

definition lowercase :: "char \<Rightarrow> bool" where
  "lowercase c = (97 \<le> (of_char c :: nat) \<and> (of_char c :: nat) \<le> 122)"

definition uppercase :: "char \<Rightarrow> bool" where
  "uppercase c = (65 \<le> (of_char c :: nat) \<and> (of_char c :: nat) \<le> 90)"

definition digit :: "char \<Rightarrow> bool" where
  "digit c = (48 \<le> (of_char c :: nat) \<and> (of_char c :: nat) \<le> 57)"

text \<open>
  The validation chain of \<open>router.post('/change-password', ...)\<close>: every rule that fails
  adds its field and message.
\<close>

definition changePasswordValidation :: "string \<Rightarrow> string \<Rightarrow> (string \<times> string) list" where
  "changePasswordValidation currentPassword newPassword =
     (if currentPassword = [] then [(''currentPassword'', ''Current password is required'')]
      else [])
     @ (if length newPassword < 8
        then [(''newPassword'', ''Password must be at least 8 characters long'')] else [])
     @ (if \<not> list_ex lowercase newPassword
        then [(''newPassword'', ''Password must contain at least one lowercase letter'')]
        else [])
     @ (if \<not> list_ex uppercase newPassword
        then [(''newPassword'', ''Password must contain at least one uppercase letter'')]
        else [])
     @ (if \<not> list_ex digit newPassword
        then [(''newPassword'', ''Password must contain at least one number'')] else [])"

definition validateRequest :: "(string \<times> string) list \<Rightarrow> failure + unit" where
  "validateRequest errors =
     (if errors \<noteq> [] then Inl (ApiError UNPROCESSABLE_ENTITY ''Validation failed'' errors)
      else Inr ())"

text \<open>
  \<open>POST /change-password\<close> as the router runs it: \<open>router.use(authenticate)\<close>, the
  validation chain, \<open>validateRequest\<close>, then the controller.
\<close>

definition post_change_password ::
  "env \<Rightarrow> nat \<Rightarrow> string \<Rightarrow> authorization option \<Rightarrow> string \<Rightarrow> string \<Rightarrow> user list
    \<Rightarrow> (failure + string) \<times> user list" where
  "post_change_password E now salt authHeader currentPassword newPassword users =
     (case authenticate E now authHeader of
        Inl e \<Rightarrow> (Inl e, users)
      | Inr uid \<Rightarrow>
          (case validateRequest (changePasswordValidation currentPassword newPassword) of
             Inl e \<Rightarrow> (Inl e, users)
           | Inr ok \<Rightarrow> changePassword E now salt uid currentPassword newPassword users))"

text \<open>
  The middleware in front of the controller: the failure it answers itself, or the
  \<open>req.userId\<close> with which the controller is called.
\<close>

definition change_password_guards ::
  "env \<Rightarrow> nat \<Rightarrow> authorization option \<Rightarrow> string \<Rightarrow> string \<Rightarrow> failure + string" where
  "change_password_guards E now authHeader currentPassword newPassword =
     (case authenticate E now authHeader of
        Inl e \<Rightarrow> Inl e
      | Inr uid \<Rightarrow>
          (case validateRequest (changePasswordValidation currentPassword newPassword) of
             Inl e \<Rightarrow> Inl e
           | Inr ok \<Rightarrow> Inr uid))"

text \<open>The complexity policy that the rules of the route state.\<close>

definition meets_policy :: "string \<Rightarrow> bool" where
  "meets_policy pw =
     (8 \<le> length pw \<and> list_ex lowercase pw \<and> list_ex uppercase pw \<and> list_ex digit pw)"

section \<open>The running server\<close>

text \<open>
  The two module-level arrays are the state of the process, both empty at start. A request
  that can change a store runs its handler on that handler's own array; the user
  controller's handlers get whatever \<open>req.userId\<close> a token carries.
\<close>

record server =
  auth_users :: "user list"
  ctrl_users :: "user list"

datatype request =
  Signup nat string string string string
  | Signin nat string string
  | GoogleCallback nat "string option"
  | GoogleAuth nat "string option"
  | UpdateCurrentUser nat string "string option" "string option"
  | DeleteCurrentUser string
  | ChangePassword nat string string string string

fun handle :: "env \<Rightarrow> request \<Rightarrow> server \<Rightarrow> server" where
  "handle E (Signup now salt nm em pw) s =
     s\<lparr>auth_users := snd (signup E now salt nm em pw (auth_users s))\<rparr>"
| "handle E (Signin now em pw) s =
     s\<lparr>auth_users := snd (signin E now em pw (auth_users s))\<rparr>"
| "handle E (GoogleCallback now code) s =
     s\<lparr>auth_users := snd (googleCallback E now code (auth_users s))\<rparr>"
| "handle E (GoogleAuth now credential) s =
     s\<lparr>auth_users := snd (googleAuth E now credential (auth_users s))\<rparr>"
| "handle E (UpdateCurrentUser now uid body_name body_email) s =
     s\<lparr>ctrl_users := snd (updateCurrentUser now uid body_name body_email (ctrl_users s))\<rparr>"
| "handle E (DeleteCurrentUser uid) s =
     s\<lparr>ctrl_users := snd (deleteCurrentUser uid (ctrl_users s))\<rparr>"
| "handle E (ChangePassword now salt uid currentPassword newPassword) s =
     s\<lparr>ctrl_users :=
         snd (changePassword E now salt uid currentPassword newPassword (ctrl_users s))\<rparr>"

text \<open>
  Requests overlap. An \<open>async\<close> handler runs up to its first \<open>await\<close> when the request
  arrives and goes on when the awaited library call has finished; handlers of other
  requests run in between. Three handlers read their store before an \<open>await\<close> and write to
  it after: \<open>signup\<close> (the lookup of line 24, then \<open>await bcrypt.genSalt\<close> and
  \<open>await bcrypt.hash\<close>, then the push of line 46, with no second lookup), \<open>signin\<close> (the
  lookup and the checks, then \<open>await bcrypt.compare\<close>, then the stamp of \<open>lastLogin\<close>) and
  the user controller's \<open>changePassword\<close> (the lookup, then three awaits, then the
  writes). The Google handlers await the Google client first and after that read and write
  with no further \<open>await\<close>; \<open>updateCurrentUser\<close> and \<open>deleteCurrentUser\<close> contain no
  \<open>await\<close>. So \<open>handle\<close> is what a request does that no other request interrupts, and the
  parts of the three handlers, before and after their awaits, follow.
\<close>

definition signup_check :: "string \<Rightarrow> user list \<Rightarrow> failure option" where
  "signup_check em users =
     (case findIndex (\<lambda>u. email u = em) users of
        Some existingUser \<Rightarrow> Some (createError CONFLICT ''Email already in use'')
      | None \<Rightarrow> None)"

definition signup_commit ::
  "env \<Rightarrow> nat \<Rightarrow> string \<Rightarrow> string \<Rightarrow> string \<Rightarrow> string \<Rightarrow> user list \<Rightarrow> data \<times> user list" where
  "signup_commit E now salt nm em pw users =
     (let hashedPassword = bcrypt_hash E pw salt;
          newUser = \<lparr>id_user = string_of_nat now, name = nm, email = em,
                     googleId = None, avatar = None, role = ''user'', isActive = True,
                     emailVerified = None, createdAt = now, updatedAt = now,
                     lastLogin = None, password = Some hashedPassword\<rparr>
      in (session E now newUser, users @ [newUser]))"

text \<open>
  \<open>signin\<close> up to \<open>bcrypt.compare\<close>: a failure, or the position of the user found and the
  hash handed to the comparison. The auth controller never removes or replaces an element
  of its array, so the object found is the element at that position when the handler goes
  on.
\<close>

definition signin_check :: "string \<Rightarrow> user list \<Rightarrow> failure + nat \<times> string" where
  "signin_check em users =
     (case findIndex (\<lambda>u. email u = em) users of
        None \<Rightarrow> Inl (createError UNAUTHORIZED ''Invalid credentials'')
      | Some i \<Rightarrow>
          if \<not> isActive (users ! i) then Inl (createError FORBIDDEN ''Account is deactivated'')
          else (case password (users ! i) of
                  None \<Rightarrow> Inl (Thrown ''Illegal arguments: string, object'')
                | Some h \<Rightarrow> Inr (i, h)))"

definition signin_finish ::
  "env \<Rightarrow> nat \<Rightarrow> nat \<Rightarrow> string \<Rightarrow> string \<Rightarrow> user list \<Rightarrow> (failure + data) \<times> user list" where
  "signin_finish E now i pw h users =
     (if \<not> bcrypt_compare E pw h
      then (Inl (createError UNAUTHORIZED ''Invalid credentials''), users)
      else (Inr (session E now (users ! i)),
            users[i := (users ! i)\<lparr>lastLogin := Some now\<rparr>]))"

definition changePassword_check :: "string \<Rightarrow> user list \<Rightarrow> failure + nat \<times> string" where
  "changePassword_check uid users =
     (case findIndex (\<lambda>u. id_user u = uid) users of
        None \<Rightarrow> Inl (createError NOT_FOUND ''User not found'')
      | Some userIndex \<Rightarrow>
          (case password (users ! userIndex) of
             None \<Rightarrow> Inl (Thrown ''Illegal arguments: string, object'')
           | Some h \<Rightarrow> Inr (userIndex, h)))"

text \<open>
  A request that waits at its \<open>await\<close>, with what its handler holds: the body of a signup;
  the position, the hash and the password of a sign-in; the position, the hash and the two
  passwords of a password change.
\<close>

datatype suspended =
  SignupHashing string string string
  | SigninComparing nat string string
  | ChangePasswordComparing nat string string string

text \<open>
  The states of the running server, with the requests that wait. What a \<open>changePassword\<close>
  that goes on writes (the fields of the object it found, and \<open>users[userIndex] = user\<close> at
  the position where it found it) depends on where that object is by then, after the
  splices and replacements of other requests. A store as a list does not tell, so the last
  rule allows any array as the result: it leaves no state out. (No request ever waits
  there: \<open>running_ctrl_empty\<close> below.)
\<close>

inductive running :: "env \<Rightarrow> server \<Rightarrow> suspended list \<Rightarrow> bool" for E :: env where
  start: "running E \<lparr>auth_users = [], ctrl_users = []\<rparr> []"
| request: "running E s waiting \<Longrightarrow> running E (handle E r s) waiting"
| signup_waits:
    "running E s waiting \<Longrightarrow> signup_check em (auth_users s) = None
      \<Longrightarrow> running E s (SignupHashing nm em pw # waiting)"
| signup_goes_on:
    "running E s waiting \<Longrightarrow> SignupHashing nm em pw \<in> set waiting
      \<Longrightarrow> running E (s\<lparr>auth_users := snd (signup_commit E now salt nm em pw (auth_users s))\<rparr>)
            (remove1 (SignupHashing nm em pw) waiting)"
| signin_waits:
    "running E s waiting \<Longrightarrow> signin_check em (auth_users s) = Inr (i, h)
      \<Longrightarrow> running E s (SigninComparing i h pw # waiting)"
| signin_goes_on:
    "running E s waiting \<Longrightarrow> SigninComparing i h pw \<in> set waiting
      \<Longrightarrow> running E (s\<lparr>auth_users := snd (signin_finish E now i pw h (auth_users s))\<rparr>)
            (remove1 (SigninComparing i h pw) waiting)"
| changePassword_waits:
    "running E s waiting \<Longrightarrow> changePassword_check uid (ctrl_users s) = Inr (i, h)
      \<Longrightarrow> running E s (ChangePasswordComparing i h currentPassword newPassword # waiting)"
| changePassword_goes_on:
    "running E s waiting
      \<Longrightarrow> ChangePasswordComparing i h currentPassword newPassword \<in> set waiting
      \<Longrightarrow> running E (s\<lparr>ctrl_users := users'\<rparr>)
            (remove1 (ChangePasswordComparing i h currentPassword newPassword) waiting)"

definition reachable :: "env \<Rightarrow> server \<Rightarrow> bool" where
  "reachable E s = (\<exists>waiting. running E s waiting)"

section \<open>A concrete configuration\<close>

text \<open>
  An instance of the configuration and the libraries to run the handlers on: a hash that
  is the salt followed by the plaintext, and a Google client that exchanges the code
  \<open>code-t\<close> for the id token \<open>t\<close> and knows three id tokens: \<open>ann\<close> (subject \<open>g1\<close>
  with Ann's email), \<open>bob\<close> (subject \<open>g1\<close> again, now with Bob's email) and \<open>eve\<close>
  (subject \<open>g2\<close> with Ann's email).
\<close>

definition ann_google :: google_payload where
  "ann_google = \<lparr>sub = ''g1'', email_g = ''ann@x.com'', name_g = ''Ann'', picture = None\<rparr>"

definition bob_google :: google_payload where
  "bob_google = \<lparr>sub = ''g1'', email_g = ''bob@x.com'', name_g = ''Ann'', picture = None\<rparr>"

definition eve_google :: google_payload where
  "eve_google = \<lparr>sub = ''g2'', email_g = ''ann@x.com'', name_g = ''Eve'', picture = None\<rparr>"

definition E0 :: env where
  "E0 = \<lparr>jwt_secret = ''key'', jwt_expiresIn = 604800,
         bcrypt_hash = (\<lambda>pw salt. salt @ pw),
         bcrypt_compare = (\<lambda>pw h. drop 2 h = pw),
         getToken = (\<lambda>code. if take 5 code = ''code-'' then Some (drop 5 code) else None),
         verifyIdToken = (\<lambda>t. if t = ''ann'' then Some ann_google
                               else if t = ''bob'' then Some bob_google
                               else if t = ''eve'' then Some eve_google else None)\<rparr>"

text \<open>A password account, active and deactivated, and a Google-created account.\<close>

definition bob :: user where
  "bob = \<lparr>id_user = ''1'', name = ''Bob'', email = ''bob@x.com'', googleId = None,
          avatar = None, role = ''user'', isActive = True, emailVerified = None,
          createdAt = 1, updatedAt = 1, lastLogin = None, password = Some ''s1Abcd1234''\<rparr>"

definition carol :: user where
  "carol = \<lparr>id_user = ''2'', name = ''Carol'', email = ''carol@x.com'', googleId = None,
            avatar = None, role = ''user'', isActive = False, emailVerified = None,
            createdAt = 2, updatedAt = 2, lastLogin = None, password = Some ''s2Abcd1234''\<rparr>"

text \<open>A second record with Bob's email.\<close>

definition rob :: user where
  "rob = \<lparr>id_user = ''2'', name = ''Rob'', email = ''bob@x.com'', googleId = None,
          avatar = None, role = ''user'', isActive = True, emailVerified = None,
          createdAt = 2, updatedAt = 2, lastLogin = None, password = Some ''s2Zyxw9876''\<rparr>"

definition ann :: user where
  "ann = \<lparr>id_user = ''3'', name = ''Ann'', email = ''ann@x.com'', googleId = Some ''g1'',
          avatar = None, role = ''user'', isActive = True, emailVerified = Some True,
          createdAt = 3, updatedAt = 3, lastLogin = None, password = None\<rparr>"

section \<open>Facts about the lookup\<close>

lemma findIndex_None: "findIndex p xs = None \<longleftrightarrow> (\<forall>x \<in> set xs. \<not> p x)"
  by (induction xs) auto

lemma findIndex_Some:
  "findIndex p xs = Some i \<longleftrightarrow> i < length xs \<and> p (xs ! i) \<and> (\<forall>j < i. \<not> p (xs ! j))"
proof (induction xs arbitrary: i)
  case Nil
  then show ?case by simp
next
  case (Cons x xs)
  show ?case
  proof (cases "p x")
    case True
    then show ?thesis by (cases i) auto
  next
    case False
    show ?thesis
    proof (cases i)
      case 0
      with False show ?thesis by auto
    next
      case (Suc k)
      have "(\<forall>j < Suc k. \<not> p ((x # xs) ! j)) \<longleftrightarrow> (\<forall>j < k. \<not> p (xs ! j))"
        using False by (auto simp: less_Suc_eq_0_disj)
      with False Suc Cons.IH [of k] show ?thesis by auto
    qed
  qed
qed

section \<open>What the handlers do to the stores\<close>

lemma map_email_update:
  "i < length xs \<Longrightarrow> email x = email (xs ! i) \<Longrightarrow> map email (xs[i := x]) = map email xs"
  by (simp add: map_update list_update_same_conv)

lemma signup_distinct:
  "distinct (map email users) \<Longrightarrow> distinct (map email (snd (signup E now salt nm em pw users)))"
  by (auto simp: signup_def Let_def findIndex_None split: option.splits)

lemma signin_emails: "map email (snd (signin E now em pw users)) = map email users"
  by (auto simp: signin_def Let_def findIndex_Some map_email_update split: option.splits)

lemma findOrCreateUser_distinct:
  "distinct (map email users) \<Longrightarrow> distinct (map email (snd (findOrCreateUser now p users)))"
  by (auto simp: findOrCreateUser_def Let_def findIndex_None findIndex_Some map_email_update
      split: option.splits)

lemma googleCallback_store:
  "snd (googleCallback E now code users) =
     (case code of
        None \<Rightarrow> users
      | Some c \<Rightarrow>
          if c = [] then users
          else (case getToken E c of
                  None \<Rightarrow> users
                | Some id_token \<Rightarrow>
                    (case verifyIdToken E id_token of
                       None \<Rightarrow> users
                     | Some payload \<Rightarrow> snd (findOrCreateUser now payload users))))"
  by (simp add: googleCallback_def split_def Let_def split: option.splits)

lemma googleAuth_store:
  "snd (googleAuth E now credential users) =
     (case credential of
        None \<Rightarrow> users
      | Some c \<Rightarrow>
          if c = [] then users
          else (case verifyIdToken E c of
                  None \<Rightarrow> users
                | Some payload \<Rightarrow> snd (findOrCreateUser now payload users)))"
  by (simp add: googleAuth_def split_def Let_def split: option.splits)

lemma googleCallback_distinct:
  "distinct (map email users) \<Longrightarrow> distinct (map email (snd (googleCallback E now code users)))"
  by (simp add: googleCallback_store findOrCreateUser_distinct split: option.splits)

lemma googleAuth_distinct:
  "distinct (map email users) \<Longrightarrow> distinct (map email (snd (googleAuth E now cred users)))"
  by (simp add: googleAuth_store findOrCreateUser_distinct split: option.splits)

lemma ctrl_handlers_empty:
  "getCurrentUser uid [] = Inl (ApiError NOT_FOUND ''User not found'' [])"
  "updateCurrentUser now uid bn be [] = (Inl (ApiError NOT_FOUND ''User not found'' []), [])"
  "deleteCurrentUser uid [] = (Inl (ApiError NOT_FOUND ''User not found'' []), [])"
  "changePassword E now salt uid cur new [] = (Inl (ApiError NOT_FOUND ''User not found'' []), [])"
  by (simp_all add: getCurrentUser_def updateCurrentUser_def deleteCurrentUser_def
      changePassword_def createError_def)

lemma handle_ctrl_empty: "ctrl_users s = [] \<Longrightarrow> ctrl_users (handle E r s) = []"
  by (cases r) (simp_all add: ctrl_handlers_empty)

lemma running_ctrl_empty:
  "running E s waiting \<Longrightarrow>
     ctrl_users s = [] \<and> (\<forall>i h c n. ChangePasswordComparing i h c n \<notin> set waiting)"
proof (induction rule: running.induct)
  case start
  show ?case by simp
next
  case (request s waiting r)
  then show ?case by (simp add: handle_ctrl_empty)
next
  case (signup_waits s waiting em nm pw)
  then show ?case by simp
next
  case (signup_goes_on s waiting nm em pw now salt)
  then show ?case by simp
next
  case (signin_waits s waiting em i h pw)
  then show ?case by simp
next
  case (signin_goes_on s waiting i h pw now)
  then show ?case by simp
next
  case (changePassword_waits s waiting uid i h currentPassword newPassword)
  then show ?case by (simp add: changePassword_check_def)
next
  case (changePassword_goes_on s waiting i h currentPassword newPassword users')
  then show ?case by simp
qed

lemma findOrCreateUser_length:
  "length users \<le> length (snd (findOrCreateUser now p users))"
  by (simp add: findOrCreateUser_def Let_def split: option.splits)

lemma handle_auth_length: "length (auth_users s) \<le> length (auth_users (handle E r s))"
proof (cases r)
  case (Signup now salt nm em pw)
  then show ?thesis by (simp add: signup_def Let_def split: option.splits)
next
  case (Signin now em pw)
  then show ?thesis by (simp add: signin_def Let_def split: option.splits)
next
  case (GoogleCallback now code)
  then show ?thesis
    by (simp add: googleCallback_store findOrCreateUser_length split: option.splits)
next
  case (GoogleAuth now credential)
  then show ?thesis
    by (simp add: googleAuth_store findOrCreateUser_length split: option.splits)
qed simp_all

text \<open>
  The position that a waiting sign-in holds is a position of the array when the sign-in
  goes on.
\<close>

lemma running_signin_in_range:
  "running E s waiting \<Longrightarrow>
     \<forall>i h pw. SigninComparing i h pw \<in> set waiting \<longrightarrow> i < length (auth_users s)"
proof (induction rule: running.induct)
  case start
  show ?case by simp
next
  case (request s waiting r)
  then show ?case
    using handle_auth_length [of s E r] by (meson less_le_trans)
next
  case (signup_waits s waiting em nm pw)
  then show ?case by simp
next
  case (signup_goes_on s waiting nm em pw now salt)
  have "set (remove1 (SignupHashing nm em pw) waiting) \<subseteq> set waiting"
    by (rule set_remove1_subset)
  with signup_goes_on.IH show ?case
    by (auto simp: signup_commit_def Let_def less_Suc_eq)
next
  case (signin_waits s waiting em i h pw)
  from signin_waits.hyps(2) have "i < length (auth_users s)"
    by (auto simp: signin_check_def findIndex_Some split: option.splits if_splits)
  with signin_waits.IH show ?case by auto
next
  case (signin_goes_on s waiting i h pw now)
  have "set (remove1 (SigninComparing i h pw) waiting) \<subseteq> set waiting"
    by (rule set_remove1_subset)
  with signin_goes_on.IH show ?case
    by (auto simp: signin_finish_def)
next
  case (changePassword_waits s waiting uid i h currentPassword newPassword)
  then show ?case by simp
next
  case (changePassword_goes_on s waiting i h currentPassword newPassword users')
  have "set (remove1 (ChangePasswordComparing i h currentPassword newPassword) waiting)
      \<subseteq> set waiting"
    by (rule set_remove1_subset)
  with changePassword_goes_on.IH show ?case by auto
qed

lemma reachable_ctrl_empty: "reachable E s \<Longrightarrow> ctrl_users s = []"
  by (auto simp: reachable_def dest: running_ctrl_empty)

lemma reachable_start: "reachable E \<lparr>auth_users = [], ctrl_users = []\<rparr>"
  unfolding reachable_def by (blast intro: running.start)

lemma reachable_request: "reachable E s \<Longrightarrow> reachable E (handle E r s)"
  unfolding reachable_def by (blast intro: running.request)

lemma signup_parts:
  "signup E now salt nm em pw users =
     (case signup_check em users of
        Some e \<Rightarrow> (Inl e, users)
      | None \<Rightarrow> (Inr (fst (signup_commit E now salt nm em pw users)),
                 snd (signup_commit E now salt nm em pw users)))"
  by (simp add: signup_def signup_check_def signup_commit_def Let_def split: option.splits)

lemma signin_parts:
  "signin E now em pw users =
     (case signin_check em users of
        Inl e \<Rightarrow> (Inl e, users)
      | Inr (i, h) \<Rightarrow> signin_finish E now i pw h users)"
  by (simp add: signin_def signin_check_def signin_finish_def Let_def split: option.splits)

lemma changePassword_parts:
  "changePassword E now salt uid currentPassword newPassword users =
     (case changePassword_check uid users of
        Inl e \<Rightarrow> (Inl e, users)
      | Inr (i, h) \<Rightarrow>
          if \<not> bcrypt_compare E currentPassword h
          then (Inl (createError UNAUTHORIZED ''Current password is incorrect''), users)
          else (Inr ''Password changed successfully'',
                users[i := (users ! i)\<lparr>password := Some (bcrypt_hash E newPassword salt),
                                         updatedAt := now\<rparr>]))"
  by (simp add: changePassword_def changePassword_check_def Let_def split: option.splits)

lemma handle_keeps_emails_distinct:
  "distinct (map email (auth_users s)) \<Longrightarrow> distinct (map email (auth_users (handle E r s)))"
  by (cases r)
    (simp_all add: signup_distinct signin_emails googleCallback_distinct googleAuth_distinct)

lemma post_change_password_guards:
  "post_change_password E now salt authHeader currentPassword newPassword users =
     (case change_password_guards E now authHeader currentPassword newPassword of
        Inl e \<Rightarrow> (Inl e, users)
      | Inr uid \<Rightarrow> changePassword E now salt uid currentPassword newPassword users)"
  by (simp add: post_change_password_def change_password_guards_def split: sum.splits)

lemma signup_conflict:
  assumes "em \<in> email ` set users"
  shows "signup E now salt nm em pw users
    = (Inl (ApiError CONFLICT ''Email already in use'' []), users)"
proof -
  from assms have "findIndex (\<lambda>u. email u = em) users \<noteq> None"
    by (auto simp: findIndex_None)
  then show ?thesis by (auto simp: signup_def createError_def)
qed

lemma update_conflict:
  assumes "distinct (map id_user users)" and "i < length users" and "id_user (users ! i) = uid"
    and "j < length users" and "j \<noteq> i" and "email (users ! j) = e" and "e \<noteq> []"
    and "email (users ! i) \<noteq> e"
  shows "updateCurrentUser now uid bn (Some e) users
    = (Inl (ApiError CONFLICT ''Email already in use'' []), users)"
proof -
  have ids: "\<And>k. k < length users \<Longrightarrow> k \<noteq> i \<Longrightarrow> id_user (users ! k) \<noteq> uid"
    using assms(1-3) by (metis length_map nth_eq_iff_index_eq nth_map)
  have "\<forall>k < i. id_user (users ! k) \<noteq> uid"
    using ids assms(2) by auto
  with assms(2,3) have found: "findIndex (\<lambda>u. id_user u = uid) users = Some i"
    by (simp add: findIndex_Some)
  have "users ! j \<in> set users" using assms(4) by simp
  moreover have "id_user (users ! j) \<noteq> uid" using ids assms(4,5) by simp
  ultimately have "list_ex (\<lambda>u. Some (email u) = Some e \<and> id_user u \<noteq> uid) users"
    using assms(6) by (auto simp: list_ex_iff)
  with found assms(7,8) show ?thesis
    by (auto simp: updateCurrentUser_def createError_def)
qed

lemma update_distinct:
  assumes ids: "distinct (map id_user users)" and ems: "distinct (map email users)"
  shows "distinct (map email (snd (updateCurrentUser now uid bn be users)))"
proof (cases "findIndex (\<lambda>u. id_user u = uid) users")
  case None
  with ems show ?thesis by (simp add: updateCurrentUser_def)
next
  case (Some i)
  then have i: "i < length users" "id_user (users ! i) = uid"
    by (simp_all add: findIndex_Some)
  have others: "\<And>k. k < length users \<Longrightarrow> k \<noteq> i \<Longrightarrow> id_user (users ! k) \<noteq> uid"
    using ids i by (metis length_map nth_eq_iff_index_eq nth_map)
  let ?clash = "truthy be \<and> be \<noteq> Some (email (users ! i))
      \<and> list_ex (\<lambda>u. Some (email u) = be \<and> id_user u \<noteq> uid) users"
  show ?thesis
  proof (cases ?clash)
    case True
    with Some ems show ?thesis by (simp add: updateCurrentUser_def)
  next
    case False
    let ?e = "or_else be (email (users ! i))"
    have fresh: "?e \<noteq> email (users ! i) \<Longrightarrow> ?e \<notin> set (map email users)"
    proof
      assume changed: "?e \<noteq> email (users ! i)" and "?e \<in> set (map email users)"
      then obtain k where k: "k < length users" "email (users ! k) = ?e"
        by (auto simp: in_set_conv_nth)
      from changed obtain e where e: "be = Some e" "e \<noteq> []" "?e = e"
        by (cases be) (auto split: if_splits)
      from k changed have "k \<noteq> i" by auto
      with others k have "id_user (users ! k) \<noteq> uid" by simp
      moreover have "users ! k \<in> set users" using k by simp
      ultimately have "list_ex (\<lambda>u. Some (email u) = be \<and> id_user u \<noteq> uid) users"
        using k e unfolding list_ex_iff by auto
      with False e changed show False by auto
    qed
    have "map email (snd (updateCurrentUser now uid bn be users)) = (map email users)[i := ?e]"
    proof -
      from False have "updateCurrentUser now uid bn be users =
          (Inr (''Profile updated successfully'',
                user_public.truncate ((users ! i)\<lparr>name := or_else bn (name (users ! i)),
                  email := ?e, updatedAt := now\<rparr>)),
           users[i := (users ! i)\<lparr>name := or_else bn (name (users ! i)),
                  email := ?e, updatedAt := now\<rparr>])"
        unfolding updateCurrentUser_def Some Let_def by simp
      then show ?thesis by (simp add: map_update)
    qed
    moreover have "distinct ((map email users)[i := ?e])"
    proof (cases "?e = email (users ! i)")
      case True
      have "(map email users)[i := email (users ! i)] = map email users"
        using i by (metis list_update_id nth_map)
      with True ems show ?thesis by simp
    next
      case False
      with fresh ems show ?thesis by (simp add: distinct_list_update)
    qed
    ultimately show ?thesis by simp
  qed
qed

lemma delete_distinct:
  "distinct (map email users) \<Longrightarrow> distinct (map email (snd (deleteCurrentUser uid users)))"
proof (cases "findIndex (\<lambda>u. id_user u = uid) users")
  case None
  then show "distinct (map email users) \<Longrightarrow> ?thesis" by (simp add: deleteCurrentUser_def)
next
  case (Some i)
  assume d: "distinct (map email users)"
  have "map email users = map email (take i users) @ map email (drop i users)"
    by (metis append_take_drop_id map_append)
  with d have "distinct (map email (take i users) @ map email (drop i users))" by simp
  moreover have "set (map email (drop (Suc i) users)) \<subseteq> set (map email (drop i users))"
    by (metis set_drop_subset_set_drop le_SucI order_refl drop_map)
  moreover have "distinct (map email (drop (Suc i) users))"
    using d by (metis distinct_drop drop_map)
  ultimately have "distinct (map email (take i users) @ map email (drop (Suc i) users))"
    by auto
  with Some show ?thesis by (simp add: deleteCurrentUser_def)
qed

lemma changePassword_emails:
  "map email (snd (changePassword E now salt uid cur new users)) = map email users"
  by (auto simp: changePassword_def Let_def findIndex_Some map_email_update split: option.splits)

lemma signup_twice:
  "signup E now' salt' nm' em pw' (snd (signup E now salt nm em pw users))
     = (Inl (ApiError CONFLICT ''Email already in use'' []), snd (signup E now salt nm em pw users))"
proof (rule signup_conflict)
  show "em \<in> email ` set (snd (signup E now salt nm em pw users))"
  proof (cases "findIndex (\<lambda>u. email u = em) users")
    case None
    then show ?thesis by (simp add: signup_def Let_def)
  next
    case (Some k)
    then have "users ! k \<in> set users" and "email (users ! k) = em"
      by (simp_all add: findIndex_Some)
    with Some show ?thesis by (auto simp: signup_def image_iff)
  qed
qed

lemma findOrCreateUser_found:
  assumes "i < length users"
    and "googleId (users ! i) = Some (sub p) \<or> email (users ! i) = email_g p"
    and "\<forall>j < i. googleId (users ! j) \<noteq> Some (sub p) \<and> email (users ! j) \<noteq> email_g p"
  shows "findOrCreateUser now p users =
     (if truthy (googleId (users ! i)) then (users ! i, users)
      else ((users ! i)\<lparr>googleId := Some (sub p), updatedAt := now\<rparr>,
            users[i := (users ! i)\<lparr>googleId := Some (sub p), updatedAt := now\<rparr>]))"
proof -
  from assms have "findIndex (\<lambda>u. googleId u = Some (sub p) \<or> email u = email_g p) users = Some i"
    by (simp add: findIndex_Some)
  then show ?thesis by (simp add: findOrCreateUser_def Let_def)
qed

lemma findOrCreateUser_keeps:
  assumes "k < length users" and "truthy (googleId (users ! k))"
  shows "k < length (snd (findOrCreateUser now p users))
    \<and> googleId (snd (findOrCreateUser now p users) ! k) = googleId (users ! k)"
proof (cases "findIndex (\<lambda>u. googleId u = Some (sub p) \<or> email u = email_g p) users")
  case None
  with assms(1) show ?thesis by (simp add: findOrCreateUser_def Let_def nth_append)
next
  case (Some i)
  show ?thesis
  proof (cases "truthy (googleId (users ! i))")
    case True
    with Some show ?thesis using assms(1) by (simp add: findOrCreateUser_def Let_def)
  next
    case False
    with assms(2) have "k \<noteq> i" by auto
    with Some False assms(1) show ?thesis by (simp add: findOrCreateUser_def Let_def)
  qed
qed

lemma googleAuth_payload:
  "c \<noteq> [] \<Longrightarrow> verifyIdToken E c = Some p \<Longrightarrow>
     googleAuth E now (Some c) users
       = (Inr (session E now (fst (findOrCreateUser now p users))),
          snd (findOrCreateUser now p users))"
  by (simp add: googleAuth_def split_def Let_def)

lemma googleCallback_payload:
  "c \<noteq> [] \<Longrightarrow> getToken E c = Some t \<Longrightarrow> verifyIdToken E t = Some p \<Longrightarrow>
     googleCallback E now (Some c) users
       = (RedirectTokens (session E now (fst (findOrCreateUser now p users))),
          snd (findOrCreateUser now p users))"
  by (simp add: googleCallback_def split_def Let_def)

lemma validation_passes_iff:
  "changePasswordValidation currentPassword newPassword = []
     \<longleftrightarrow> currentPassword \<noteq> [] \<and> meets_policy newPassword"
  by (auto simp: changePasswordValidation_def meets_policy_def)

section \<open>Sign-in\<close>

text \<open>
  What \<open>signin\<close> answers when the record it finds has a hash: Unauthorized when no stored
  user has the email; of the first stored user with it, Forbidden when it is not active,
  whatever the password, Unauthorized when the password does not match the hash, and else
  the user without the password with an access and a refresh token for the user's id,
  \<open>lastLogin\<close> being stamped on the stored record. The store changes in no failing case.
\<close>

lemma signin_with_stored_hash:
  "((\<forall>u \<in> set users. email u \<noteq> em) \<longrightarrow>
      signin E now em pw users = (Inl (ApiError UNAUTHORIZED ''Invalid credentials'' []), users))
   \<and> (\<forall>i. i < length users \<and> email (users ! i) = em \<and> (\<forall>j < i. email (users ! j) \<noteq> em) \<longrightarrow>
        (\<not> isActive (users ! i) \<longrightarrow>
           signin E now em pw users
             = (Inl (ApiError FORBIDDEN ''Account is deactivated'' []), users))
        \<and> (\<forall>h. isActive (users ! i) \<and> password (users ! i) = Some h \<longrightarrow>
             (\<not> bcrypt_compare E pw h \<longrightarrow>
                signin E now em pw users
                  = (Inl (ApiError UNAUTHORIZED ''Invalid credentials'' []), users))
             \<and> (bcrypt_compare E pw h \<longrightarrow>
                  signin E now em pw users
                    = (Inr \<lparr>user_data = Some (user_public.truncate (users ! i)),
                             token_data = Some (generateToken E (id_user (users ! i)) now),
                             refreshToken_data =
                               Some (jwt_sign (id_user (users ! i)) (jwt_secret E)
                                       thirty_days now)\<rparr>,
                       users[i := (users ! i)\<lparr>lastLogin := Some now\<rparr>]))))"
proof (intro conjI allI impI)
  assume "\<forall>u \<in> set users. email u \<noteq> em"
  then have "findIndex (\<lambda>u. email u = em) users = None"
    by (simp add: findIndex_None)
  then show "signin E now em pw users
      = (Inl (ApiError UNAUTHORIZED ''Invalid credentials'' []), users)"
    by (simp add: signin_def createError_def)
next
  fix i
  assume "i < length users \<and> email (users ! i) = em \<and> (\<forall>j < i. email (users ! j) \<noteq> em)"
  then have found: "findIndex (\<lambda>u. email u = em) users = Some i"
    by (simp add: findIndex_Some)
  {
    assume "\<not> isActive (users ! i)"
    with found show "signin E now em pw users
        = (Inl (ApiError FORBIDDEN ''Account is deactivated'' []), users)"
      by (simp add: signin_def createError_def)
  }
  fix h
  assume stored: "isActive (users ! i) \<and> password (users ! i) = Some h"
  {
    assume "\<not> bcrypt_compare E pw h"
    with found stored show "signin E now em pw users
        = (Inl (ApiError UNAUTHORIZED ''Invalid credentials'' []), users)"
      by (simp add: signin_def createError_def)
  }
  {
    assume "bcrypt_compare E pw h"
    with found stored show "signin E now em pw users
        = (Inr \<lparr>user_data = Some (user_public.truncate (users ! i)),
                 token_data = Some (generateToken E (id_user (users ! i)) now),
                 refreshToken_data =
                   Some (jwt_sign (id_user (users ! i)) (jwt_secret E) thirty_days now)\<rparr>,
           users[i := (users ! i)\<lparr>lastLogin := Some now\<rparr>])"
      by (simp add: signin_def session_def Let_def)
  }
qed

lemma signin_without_hash:
  assumes "i < length users" and "email (users ! i) = em"
    and "\<forall>j < i. email (users ! j) \<noteq> em"
    and "isActive (users ! i)" and "password (users ! i) = None"
  shows "signin E now em pw users
    = (Inl (Thrown ''Illegal arguments: string, object''), users)"
proof -
  from assms(1-3) have "findIndex (\<lambda>u. email u = em) users = Some i"
    by (simp add: findIndex_Some)
  with assms(4,5) show ?thesis by (simp add: signin_def)
qed

text \<open>
  C1. A sign-in to an active account with a password that does not match must fail with
  Unauthorized, and for every other active account it succeeds. The handler misses the
  record that has no hash. A user created by a Google sign-in is stored with
  \<open>password: null\<close>; for it \<open>bcrypt.compare\<close> throws, whatever the password, the \<open>catch\<close>
  of the handler passes the exception on, and the request ends as an internal error:
  neither Unauthorized nor a success. The store here is the one that Bob's signup and
  Ann's Google sign-in leave.
\<close>

theorem signin_google_account_throws:
  "auth_users (handle E0 (GoogleAuth 3 (Some ''ann''))
      (handle E0 (Signup 1 ''s1'' ''Bob'' ''bob@x.com'' ''Abcd1234'')
         \<lparr>auth_users = [], ctrl_users = []\<rparr>)) = [bob, ann]
   \<and> email ann = ''ann@x.com'' \<and> isActive ann \<and> password ann = None
   \<and> signin E0 5000 ''ann@x.com'' ''Abcd1234'' [bob, ann]
       = (Inl (Thrown ''Illegal arguments: string, object''), [bob, ann])"
proof -
  have n: "string_of_nat 1 = ''1''" "string_of_nat 3 = ''3''" by code_simp+
  have "auth_users (handle E0 (GoogleAuth 3 (Some ''ann''))
      (handle E0 (Signup 1 ''s1'' ''Bob'' ''bob@x.com'' ''Abcd1234'')
         \<lparr>auth_users = [], ctrl_users = []\<rparr>)) = [bob, ann]"
    using n
    by (simp add: signup_def googleAuth_def findOrCreateUser_def Let_def E0_def bob_def
        ann_def ann_google_def)
  moreover have "signin E0 5000 ''ann@x.com'' ''Abcd1234'' [bob, ann]
       = (Inl (Thrown ''Illegal arguments: string, object''), [bob, ann])"
    by (simp add: signin_def bob_def ann_def)
  ultimately show ?thesis by (simp add: ann_def)
qed

section \<open>Email uniqueness\<close>

text \<open>
  C2. No two records of a store should have the same email, and \<open>signup\<close> is written for
  it: it looks the email up and answers Conflict when a record has it. But the lookup
  (line 24) and the push (line 46) are on the two sides of the awaits of the hashing, and
  nothing looks again before the push. Two signups with one email that overlap both pass
  the lookup, on the store as it still is, and both push: the server reaches a store with
  two records of the same email, and both requests are answered as created.
\<close>

theorem overlapping_signups_duplicate_email:
  "signup_check ''bob@x.com'' [] = None
   \<and> signup_commit E0 1 ''s1'' ''Bob'' ''bob@x.com'' ''Abcd1234'' [] = (session E0 1 bob, [bob])
   \<and> signup_commit E0 2 ''s2'' ''Rob'' ''bob@x.com'' ''Zyxw9876'' [bob]
       = (session E0 2 rob, [bob, rob])
   \<and> reachable E0 \<lparr>auth_users = [bob, rob], ctrl_users = []\<rparr>
   \<and> email bob = email rob
   \<and> \<not> distinct (map email [bob, rob])"
proof -
  let ?A = "SignupHashing ''Bob'' ''bob@x.com'' ''Abcd1234''"
  let ?B = "SignupHashing ''Rob'' ''bob@x.com'' ''Zyxw9876''"
  have n: "string_of_nat 1 = ''1''" "string_of_nat 2 = ''2''" by code_simp+
  have check: "signup_check ''bob@x.com'' [] = None"
    by (simp add: signup_check_def)
  have first: "signup_commit E0 1 ''s1'' ''Bob'' ''bob@x.com'' ''Abcd1234'' []
      = (session E0 1 bob, [bob])"
    using n by (simp add: signup_commit_def Let_def E0_def bob_def)
  have second: "signup_commit E0 2 ''s2'' ''Rob'' ''bob@x.com'' ''Zyxw9876'' [bob]
      = (session E0 2 rob, [bob, rob])"
    using n by (simp add: signup_commit_def Let_def E0_def rob_def)
  have "running E0 \<lparr>auth_users = [], ctrl_users = []\<rparr> []"
    by (rule running.start)
  from running.signup_waits [OF this, where em = "''bob@x.com''" and nm = "''Bob''"
      and pw = "''Abcd1234''"] check
  have "running E0 \<lparr>auth_users = [], ctrl_users = []\<rparr> [?A]"
    by simp
  from running.signup_waits [OF this, where em = "''bob@x.com''" and nm = "''Rob''"
      and pw = "''Zyxw9876''"] check
  have "running E0 \<lparr>auth_users = [], ctrl_users = []\<rparr> [?B, ?A]"
    by simp
  from running.signup_goes_on [OF this, where nm = "''Bob''" and em = "''bob@x.com''"
      and pw = "''Abcd1234''" and now = 1 and salt = "''s1''"] first
  have "running E0 \<lparr>auth_users = [bob], ctrl_users = []\<rparr> [?B]"
    by simp
  from running.signup_goes_on [OF this, where nm = "''Rob''" and em = "''bob@x.com''"
      and pw = "''Zyxw9876''" and now = 2 and salt = "''s2''"] second
  have "running E0 \<lparr>auth_users = [bob, rob], ctrl_users = []\<rparr> []"
    by simp
  then have "reachable E0 \<lparr>auth_users = [bob, rob], ctrl_users = []\<rparr>"
    unfolding reachable_def by blast
  with check first second show ?thesis
    by (simp add: bob_def rob_def)
qed

section \<open>The two stores\<close>

text \<open>
  C10. The auth controller and the user controller have each their own array. Signup,
  sign-in and Google login leave the user controller's array as it is, and it starts
  empty, so in every state the server can reach it is empty: getCurrentUser,
  updateCurrentUser, changePassword and deleteCurrentUser fail with NotFound for every id,
  that of a user who signed up included.
\<close>

theorem user_controller_store_stays_empty:
  "ctrl_users (handle E (Signup now salt nm em pw) s) = ctrl_users s
   \<and> ctrl_users (handle E (Signin now em pw) s) = ctrl_users s
   \<and> ctrl_users (handle E (GoogleCallback now code) s) = ctrl_users s
   \<and> ctrl_users (handle E (GoogleAuth now credential) s) = ctrl_users s
   \<and> (reachable E s \<longrightarrow>
        ctrl_users s = []
        \<and> getCurrentUser uid (ctrl_users s) = Inl (ApiError NOT_FOUND ''User not found'' [])
        \<and> updateCurrentUser now uid body_name body_email (ctrl_users s)
            = (Inl (ApiError NOT_FOUND ''User not found'' []), ctrl_users s)
        \<and> changePassword E now salt uid currentPassword newPassword (ctrl_users s)
            = (Inl (ApiError NOT_FOUND ''User not found'' []), ctrl_users s)
        \<and> deleteCurrentUser uid (ctrl_users s)
            = (Inl (ApiError NOT_FOUND ''User not found'' []), ctrl_users s))"
proof (intro conjI impI)
  assume "reachable E s"
  then have empty: "ctrl_users s = []" by (rule reachable_ctrl_empty)
  then show "ctrl_users s = []" .
  from empty show "getCurrentUser uid (ctrl_users s) = Inl (ApiError NOT_FOUND ''User not found'' [])"
    by (simp add: ctrl_handlers_empty)
  from empty show "updateCurrentUser now uid body_name body_email (ctrl_users s)
      = (Inl (ApiError NOT_FOUND ''User not found'' []), ctrl_users s)"
    by (simp add: ctrl_handlers_empty)
  from empty show "changePassword E now salt uid currentPassword newPassword (ctrl_users s)
      = (Inl (ApiError NOT_FOUND ''User not found'' []), ctrl_users s)"
    by (simp add: ctrl_handlers_empty)
  from empty show "deleteCurrentUser uid (ctrl_users s)
      = (Inl (ApiError NOT_FOUND ''User not found'' []), ctrl_users s)"
    by (simp add: ctrl_handlers_empty)
qed simp_all

theorem user_controller_store_stays_empty_witness:
  "auth_users (handle E0 (Signup 1 ''s1'' ''Bob'' ''bob@x.com'' ''Abcd1234'')
       \<lparr>auth_users = [], ctrl_users = []\<rparr>) = [bob]
   \<and> ctrl_users (handle E0 (Signup 1 ''s1'' ''Bob'' ''bob@x.com'' ''Abcd1234'')
       \<lparr>auth_users = [], ctrl_users = []\<rparr>) = []
   \<and> getCurrentUser (id_user bob)
       (ctrl_users (handle E0 (Signup 1 ''s1'' ''Bob'' ''bob@x.com'' ''Abcd1234'')
          \<lparr>auth_users = [], ctrl_users = []\<rparr>))
       = Inl (ApiError NOT_FOUND ''User not found'' [])
   \<and> changePassword E0 2 ''s2'' (id_user bob) ''Abcd1234'' ''Zyxw9876''
       (ctrl_users (handle E0 (Signup 1 ''s1'' ''Bob'' ''bob@x.com'' ''Abcd1234'')
          \<lparr>auth_users = [], ctrl_users = []\<rparr>))
       = (Inl (ApiError NOT_FOUND ''User not found'' []), [])"
proof -
  let ?s = "handle E0 (Signup 1 ''s1'' ''Bob'' ''bob@x.com'' ''Abcd1234'')
       \<lparr>auth_users = [], ctrl_users = []\<rparr>"
  have r: "reachable E0 ?s"
    by (intro reachable_request reachable_start)
  have "string_of_nat 1 = ''1''" by code_simp
  then have a: "auth_users ?s = [bob]"
    by (simp add: signup_def Let_def E0_def bob_def)
  from r user_controller_store_stays_empty [where E = E0 and s = ?s and uid = "id_user bob"
      and now = 2 and salt = "''s2''" and currentPassword = "''Abcd1234''"
      and newPassword = "''Zyxw9876''", THEN conjunct2, THEN conjunct2, THEN conjunct2,
      THEN conjunct2]
  have "ctrl_users ?s = []
      \<and> getCurrentUser (id_user bob) (ctrl_users ?s) = Inl (ApiError NOT_FOUND ''User not found'' [])
      \<and> changePassword E0 2 ''s2'' (id_user bob) ''Abcd1234'' ''Zyxw9876'' (ctrl_users ?s)
          = (Inl (ApiError NOT_FOUND ''User not found'' []), [])"
    by simp
  with a show ?thesis by simp
qed

section \<open>Google sign-in: which user is resolved\<close>




section \<open>Google sign-in: linking\<close>

text \<open>
  C4. When a Google sign-in resolves to a stored user, the asserted id is written into
  that record and updatedAt is stamped only if the record has no Google id yet (none, or
  the empty string, which JavaScript takes for none); otherwise the store is left as it is.
  No Google sign-in, whatever it resolves to, changes the Google id of a record that has
  one.
\<close>

theorem social_link_only_when_unlinked:
  "(i < length users
    \<and> (googleId (users ! i) = Some (sub p) \<or> email (users ! i) = email_g p)
    \<and> (\<forall>j < i. googleId (users ! j) \<noteq> Some (sub p) \<and> email (users ! j) \<noteq> email_g p)
    \<longrightarrow>
      (credential \<noteq> [] \<and> verifyIdToken E credential = Some p \<longrightarrow>
         snd (googleAuth E now (Some credential) users)
           = (if truthy (googleId (users ! i)) then users
              else users[i := (users ! i)\<lparr>googleId := Some (sub p), updatedAt := now\<rparr>]))
      \<and> (code \<noteq> [] \<and> getToken E code = Some t \<and> verifyIdToken E t = Some p \<longrightarrow>
           snd (googleCallback E now (Some code) users)
             = (if truthy (googleId (users ! i)) then users
                else users[i := (users ! i)\<lparr>googleId := Some (sub p), updatedAt := now\<rparr>])))
   \<and> (k < length users \<and> truthy (googleId (users ! k)) \<longrightarrow>
        k < length (snd (googleAuth E now body_credential users))
        \<and> googleId (snd (googleAuth E now body_credential users) ! k) = googleId (users ! k)
        \<and> k < length (snd (googleCallback E now query_code users))
        \<and> googleId (snd (googleCallback E now query_code users) ! k) = googleId (users ! k))"
proof (intro conjI impI)
  assume m: "i < length users
    \<and> (googleId (users ! i) = Some (sub p) \<or> email (users ! i) = email_g p)
    \<and> (\<forall>j < i. googleId (users ! j) \<noteq> Some (sub p) \<and> email (users ! j) \<noteq> email_g p)"
  then have f: "snd (findOrCreateUser now p users) =
      (if truthy (googleId (users ! i)) then users
       else users[i := (users ! i)\<lparr>googleId := Some (sub p), updatedAt := now\<rparr>])"
    by (subst findOrCreateUser_found [where i = i]) simp_all
  {
    assume "credential \<noteq> [] \<and> verifyIdToken E credential = Some p"
    then show "snd (googleAuth E now (Some credential) users)
        = (if truthy (googleId (users ! i)) then users
           else users[i := (users ! i)\<lparr>googleId := Some (sub p), updatedAt := now\<rparr>])"
      using f by (simp add: googleAuth_payload)
  }
  {
    assume "code \<noteq> [] \<and> getToken E code = Some t \<and> verifyIdToken E t = Some p"
    then show "snd (googleCallback E now (Some code) users)
        = (if truthy (googleId (users ! i)) then users
           else users[i := (users ! i)\<lparr>googleId := Some (sub p), updatedAt := now\<rparr>])"
      using f by (simp add: googleCallback_payload)
  }
next
  assume k: "k < length users \<and> truthy (googleId (users ! k))"
  then have keep: "\<And>q. k < length (snd (findOrCreateUser now q users))
      \<and> googleId (snd (findOrCreateUser now q users) ! k) = googleId (users ! k)"
    by (simp add: findOrCreateUser_keeps)
  from k keep show "k < length (snd (googleAuth E now body_credential users))"
    by (simp add: googleAuth_store split: option.splits)
  from k keep
  show "googleId (snd (googleAuth E now body_credential users) ! k) = googleId (users ! k)"
    by (simp add: googleAuth_store split: option.splits)
  from k keep show "k < length (snd (googleCallback E now query_code users))"
    by (simp add: googleCallback_store split: option.splits)
  from k keep
  show "googleId (snd (googleCallback E now query_code users) ! k) = googleId (users ! k)"
    by (simp add: googleCallback_store split: option.splits)
qed

theorem social_link_only_when_unlinked_witness:
  "snd (googleAuth E0 7000 (Some ''bob'') [bob, ann])
     = [bob\<lparr>googleId := Some ''g1'', updatedAt := 7000\<rparr>, ann]
   \<and> snd (googleCallback E0 7000 (Some ''code-eve'') [bob, ann]) = [bob, ann]
   \<and> googleId (snd (googleAuth E0 7000 (Some ''eve'') [bob, ann]) ! 1) = Some ''g1''"
proof (intro conjI)
  show "snd (googleAuth E0 7000 (Some ''bob'') [bob, ann])
     = [bob\<lparr>googleId := Some ''g1'', updatedAt := 7000\<rparr>, ann]"
    using social_link_only_when_unlinked [where users = "[bob, ann]" and i = 0
        and p = bob_google and credential = "''bob''" and E = E0 and now = 7000,
        THEN conjunct1, THEN mp, THEN conjunct1]
    by (simp add: bob_def ann_def bob_google_def E0_def)
  show "snd (googleCallback E0 7000 (Some ''code-eve'') [bob, ann]) = [bob, ann]"
    using social_link_only_when_unlinked [where users = "[bob, ann]" and i = 1
        and p = eve_google and code = "''code-eve''" and t = "''eve''" and E = E0
        and now = 7000, THEN conjunct1, THEN mp, THEN conjunct2]
    by (simp add: bob_def ann_def eve_google_def E0_def)
  show "googleId (snd (googleAuth E0 7000 (Some ''eve'') [bob, ann]) ! 1) = Some ''g1''"
    using social_link_only_when_unlinked [where users = "[bob, ann]" and k = 1 and E = E0
        and now = 7000 and body_credential = "Some ''eve''", THEN conjunct2]
    by (simp add: ann_def)
qed

section \<open>The password policy\<close>

text \<open>
  C5. A new password that violates the complexity policy (fewer than 8 characters, or no
  lowercase letter, no uppercase letter or no digit) is rejected before any hashing and
  before any change to the stored record. The call of \<open>changePassword\<close> is that of the
  route \<open>POST /change-password\<close>, behind the authentication middleware and the validation
  chain: every call that reaches the controller has a new password that meets the policy,
  and a request whose new password violates it is answered by the middleware, with the
  failure of the authentication or else with 422 Validation failed; the store is not
  changed, and the answer is the same whatever the hashing library computes.
\<close>

theorem weak_password_stopped_by_route:
  "post_change_password E now salt authHeader currentPassword newPassword users
     = (case change_password_guards E now authHeader currentPassword newPassword of
          Inl e \<Rightarrow> (Inl e, users)
        | Inr uid \<Rightarrow> changePassword E now salt uid currentPassword newPassword users)
   \<and> (\<forall>uid. change_password_guards E now authHeader currentPassword newPassword = Inr uid
          \<longrightarrow> meets_policy newPassword)
   \<and> (\<not> meets_policy newPassword \<longrightarrow>
        snd (post_change_password E now salt authHeader currentPassword newPassword users)
          = users
        \<and> (\<forall>e. authenticate E now authHeader = Inl e \<longrightarrow>
             fst (post_change_password E now salt authHeader currentPassword newPassword users)
               = Inl e)
        \<and> (\<forall>uid. authenticate E now authHeader = Inr uid \<longrightarrow>
             fst (post_change_password E now salt authHeader currentPassword newPassword users)
               = Inl (ApiError UNPROCESSABLE_ENTITY ''Validation failed''
                       (changePasswordValidation currentPassword newPassword)))
        \<and> (\<forall>hash compare.
             post_change_password (E\<lparr>bcrypt_hash := hash, bcrypt_compare := compare\<rparr>)
                 now salt authHeader currentPassword newPassword users
               = post_change_password E now salt authHeader currentPassword newPassword users))"
proof (intro conjI allI impI)
  show "post_change_password E now salt authHeader currentPassword newPassword users
     = (case change_password_guards E now authHeader currentPassword newPassword of
          Inl e \<Rightarrow> (Inl e, users)
        | Inr uid \<Rightarrow> changePassword E now salt uid currentPassword newPassword users)"
    by (rule post_change_password_guards)
next
  fix uid
  assume "change_password_guards E now authHeader currentPassword newPassword = Inr uid"
  then have "changePasswordValidation currentPassword newPassword = []"
    by (auto simp: change_password_guards_def validateRequest_def split: sum.splits if_splits)
  then show "meets_policy newPassword"
    by (simp add: validation_passes_iff)
next
  assume weak: "\<not> meets_policy newPassword"
  then have invalid: "changePasswordValidation currentPassword newPassword \<noteq> []"
    by (simp add: validation_passes_iff)
  then show "snd (post_change_password E now salt authHeader currentPassword newPassword users)
      = users"
    by (simp add: post_change_password_def validateRequest_def split: sum.splits)
  {
    fix e
    assume "authenticate E now authHeader = Inl e"
    then show "fst (post_change_password E now salt authHeader currentPassword newPassword users)
        = Inl e"
      by (simp add: post_change_password_def)
  }
  {
    fix uid
    assume "authenticate E now authHeader = Inr uid"
    with invalid
    show "fst (post_change_password E now salt authHeader currentPassword newPassword users)
        = Inl (ApiError UNPROCESSABLE_ENTITY ''Validation failed''
                (changePasswordValidation currentPassword newPassword))"
      by (simp add: post_change_password_def validateRequest_def)
  }
  {
    fix hash compare
    have secret: "jwt_secret (E\<lparr>bcrypt_hash := hash, bcrypt_compare := compare\<rparr>)
        = jwt_secret E"
      by simp
    have "authenticate (E\<lparr>bcrypt_hash := hash, bcrypt_compare := compare\<rparr>) now authHeader
        = authenticate E now authHeader"
      unfolding authenticate_def secret by (rule refl)
    with invalid
    show "post_change_password (E\<lparr>bcrypt_hash := hash, bcrypt_compare := compare\<rparr>)
          now salt authHeader currentPassword newPassword users
        = post_change_password E now salt authHeader currentPassword newPassword users"
      by (simp add: post_change_password_def validateRequest_def split: sum.splits)
  }
qed

theorem weak_password_stopped_by_route_witness:
  "post_change_password E0 9000 ''s9'' (Some (Bearer (generateToken E0 ''1'' 5000)))
      ''Abcd1234'' ''weak'' [bob]
     = (Inl (ApiError UNPROCESSABLE_ENTITY ''Validation failed''
          [(''newPassword'', ''Password must be at least 8 characters long''),
           (''newPassword'', ''Password must contain at least one uppercase letter''),
           (''newPassword'', ''Password must contain at least one number'')]), [bob])
   \<and> post_change_password E0 9000 ''s9'' None ''Abcd1234'' ''weak'' [bob]
     = (Inl (ApiError UNAUTHORIZED ''No token provided'' []), [bob])
   \<and> change_password_guards E0 9000 (Some (Bearer (generateToken E0 ''1'' 5000)))
        ''Abcd1234'' ''Zyxw9876'' = Inr ''1''
   \<and> meets_policy ''Zyxw9876''"
proof (intro conjI)
  have a: "authenticate E0 9000 (Some (Bearer (generateToken E0 ''1'' 5000))) = Inr ''1''"
    by (simp add: authenticate_def generateToken_def jwt_sign_def E0_def)
  have n: "authenticate E0 9000 None = Inl (ApiError UNAUTHORIZED ''No token provided'' [])"
    by (simp add: authenticate_def createError_def)
  have q: "\<not> meets_policy ''weak''"
    by (simp add: meets_policy_def)
  have v: "changePasswordValidation ''Abcd1234'' ''weak''
      = [(''newPassword'', ''Password must be at least 8 characters long''),
         (''newPassword'', ''Password must contain at least one uppercase letter''),
         (''newPassword'', ''Password must contain at least one number'')]"
    by (simp add: changePasswordValidation_def lowercase_def uppercase_def digit_def)
  have g: "change_password_guards E0 9000 (Some (Bearer (generateToken E0 ''1'' 5000)))
        ''Abcd1234'' ''Zyxw9876'' = Inr ''1''"
    using a
    by (simp add: change_password_guards_def validateRequest_def changePasswordValidation_def
        lowercase_def uppercase_def digit_def)
  from weak_password_stopped_by_route [where newPassword = "''weak''" and E = E0
      and now = 9000 and salt = "''s9''" and currentPassword = "''Abcd1234''"
      and users = "[bob]" and authHeader = "Some (Bearer (generateToken E0 ''1'' 5000))",
      THEN conjunct2, THEN conjunct2] q a v
  show "post_change_password E0 9000 ''s9'' (Some (Bearer (generateToken E0 ''1'' 5000)))
      ''Abcd1234'' ''weak'' [bob]
     = (Inl (ApiError UNPROCESSABLE_ENTITY ''Validation failed''
          [(''newPassword'', ''Password must be at least 8 characters long''),
           (''newPassword'', ''Password must contain at least one uppercase letter''),
           (''newPassword'', ''Password must contain at least one number'')]), [bob])"
    by (simp add: prod_eq_iff)
  from weak_password_stopped_by_route [where newPassword = "''weak''" and E = E0
      and now = 9000 and salt = "''s9''" and currentPassword = "''Abcd1234''"
      and users = "[bob]" and authHeader = None, THEN conjunct2, THEN conjunct2] q n
  show "post_change_password E0 9000 ''s9'' None ''Abcd1234'' ''weak'' [bob]
     = (Inl (ApiError UNAUTHORIZED ''No token provided'' []), [bob])"
    by (simp add: prod_eq_iff)
  show "change_password_guards E0 9000 (Some (Bearer (generateToken E0 ''1'' 5000)))
        ''Abcd1234'' ''Zyxw9876'' = Inr ''1''"
    by (rule g)
  from weak_password_stopped_by_route [where newPassword = "''Zyxw9876''" and E = E0
      and now = 9000 and currentPassword = "''Abcd1234''"
      and authHeader = "Some (Bearer (generateToken E0 ''1'' 5000))",
      THEN conjunct2, THEN conjunct1, THEN spec, of "''1''"] g
  show "meets_policy ''Zyxw9876''"
    by simp
qed

section \<open>Expired and invalid tokens\<close>

text \<open>
  C6, as the code has it. The authentication middleware answers an expired token with
  Unauthorized "Token expired" and a malformed or wrongly signed one with Unauthorized
  "Invalid token". The refresh endpoint answers every token that fails verification,
  expired or invalid, with the same Forbidden "Invalid refresh token".
\<close>

theorem expiry_distinguished_by_middleware_only:
  "(token_truthy (Some (second_word t)) \<longrightarrow>
      (jwt_verify (second_word t) (jwt_secret E) now = Inl TokenExpiredError \<longrightarrow>
         authenticate E now (Some (Bearer t)) = Inl (ApiError UNAUTHORIZED ''Token expired'' []))
      \<and> (jwt_verify (second_word t) (jwt_secret E) now = Inl JsonWebTokenError \<longrightarrow>
           authenticate E now (Some (Bearer t))
             = Inl (ApiError UNAUTHORIZED ''Invalid token'' [])))
   \<and> (token_truthy (Some t) \<longrightarrow>
        (\<forall>err. jwt_verify t (jwt_secret E) now = Inl err \<longrightarrow>
           refreshToken E now (Some t)
             = Inl (ApiError FORBIDDEN ''Invalid refresh token'' [])))"
  by (simp add: authenticate_def refreshToken_def createError_def Let_def)

theorem expiry_distinguished_by_middleware_only_witness:
  "authenticate E0 700000000 (Some (Bearer (generateToken E0 ''1'' 5000)))
     = Inl (ApiError UNAUTHORIZED ''Token expired'' [])
   \<and> authenticate E0 700000000 (Some (Bearer (Raw ''junk'')))
     = Inl (ApiError UNAUTHORIZED ''Invalid token'' [])
   \<and> refreshToken E0 700000000 (Some (generateToken E0 ''1'' 5000))
     = Inl (ApiError FORBIDDEN ''Invalid refresh token'' [])
   \<and> refreshToken E0 700000000 (Some (Raw ''junk''))
     = Inl (ApiError FORBIDDEN ''Invalid refresh token'' [])"
proof (intro conjI)
  show "authenticate E0 700000000 (Some (Bearer (generateToken E0 ''1'' 5000)))
     = Inl (ApiError UNAUTHORIZED ''Token expired'' [])"
    using expiry_distinguished_by_middleware_only [where E = E0 and now = 700000000
        and t = "generateToken E0 ''1'' 5000", THEN conjunct1]
    by (simp add: generateToken_def jwt_sign_def E0_def)
  show "authenticate E0 700000000 (Some (Bearer (Raw ''junk'')))
     = Inl (ApiError UNAUTHORIZED ''Invalid token'' [])"
    using expiry_distinguished_by_middleware_only [where E = E0 and now = 700000000
        and t = "Raw ''junk''", THEN conjunct1]
    by simp
  show "refreshToken E0 700000000 (Some (generateToken E0 ''1'' 5000))
     = Inl (ApiError FORBIDDEN ''Invalid refresh token'' [])"
    using expiry_distinguished_by_middleware_only [where E = E0 and now = 700000000
        and t = "generateToken E0 ''1'' 5000", THEN conjunct2]
    by (simp add: generateToken_def jwt_sign_def E0_def)
  show "refreshToken E0 700000000 (Some (Raw ''junk''))
     = Inl (ApiError FORBIDDEN ''Invalid refresh token'' [])"
    using expiry_distinguished_by_middleware_only [where E = E0 and now = 700000000
        and t = "Raw ''junk''", THEN conjunct2]
    by simp
qed

text \<open>
  C6 as stated asks for the distinction on every verification path. At the refresh
  endpoint an expired token and a malformed one get the same failure.
\<close>

theorem refresh_expiry_counterexample:
  "jwt_verify (generateToken E0 ''1'' 5000) (jwt_secret E0) 700000000 = Inl TokenExpiredError
   \<and> jwt_verify (Raw ''junk'') (jwt_secret E0) 700000000 = Inl JsonWebTokenError
   \<and> refreshToken E0 700000000 (Some (generateToken E0 ''1'' 5000))
       = Inl (ApiError FORBIDDEN ''Invalid refresh token'' [])
   \<and> refreshToken E0 700000000 (Some (Raw ''junk''))
       = Inl (ApiError FORBIDDEN ''Invalid refresh token'' [])"
  by (simp add: refreshToken_def generateToken_def jwt_sign_def createError_def E0_def)

section \<open>Refresh\<close>



section \<open>Changing the password with a wrong current password\<close>

text \<open>
  C8. When the current password supplied to changePassword does not match the hash stored
  for the user, the call fails with Unauthorized "Current password is incorrect" and the
  store, so the user's hash, updatedAt and every other field, is unchanged.
\<close>

theorem changePassword_wrong_current:
  "i < length users \<and> id_user (users ! i) = uid \<and> (\<forall>j < i. id_user (users ! j) \<noteq> uid)
   \<and> password (users ! i) = Some h \<and> \<not> bcrypt_compare E currentPassword h
   \<longrightarrow> changePassword E now salt uid currentPassword newPassword users
         = (Inl (ApiError UNAUTHORIZED ''Current password is incorrect'' []), users)"
proof
  assume a: "i < length users \<and> id_user (users ! i) = uid
      \<and> (\<forall>j < i. id_user (users ! j) \<noteq> uid)
      \<and> password (users ! i) = Some h \<and> \<not> bcrypt_compare E currentPassword h"
  then have "findIndex (\<lambda>u. id_user u = uid) users = Some i"
    by (simp add: findIndex_Some)
  with a show "changePassword E now salt uid currentPassword newPassword users
      = (Inl (ApiError UNAUTHORIZED ''Current password is incorrect'' []), users)"
    by (simp add: changePassword_def createError_def)
qed

theorem changePassword_wrong_current_witness:
  "changePassword E0 9000 ''s9'' ''2'' ''wrong'' ''Zyxw9876'' [bob, carol]
     = (Inl (ApiError UNAUTHORIZED ''Current password is incorrect'' []), [bob, carol])"
  using changePassword_wrong_current [where users = "[bob, carol]" and i = 1 and uid = "''2''"
      and h = "''s2Abcd1234''" and E = E0 and currentPassword = "''wrong''" and now = 9000
      and salt = "''s9''" and newPassword = "''Zyxw9876''"]
  by (simp add: bob_def carol_def E0_def)

section \<open>Access tokens at the refresh endpoint\<close>

text \<open>
  C9. An access token from generateToken and a refresh token are signed with the same
  secret and carry the same claims (userId, iat, exp); they differ in the value of exp
  only. So an access token that has not expired verifies at the refresh endpoint and
  yields a new access token for its userId, and while both are unexpired the endpoint
  answers the access token and the refresh token of the same user alike.
\<close>

theorem access_token_accepted_as_refresh_token:
  "generateToken E uid now
     = Jwt \<lparr>userId = uid, iat = now div 1000, exp = now div 1000 + jwt_expiresIn E\<rparr>
         (jwt_secret E)
   \<and> jwt_sign uid (jwt_secret E) thirty_days now
     = Jwt \<lparr>userId = uid, iat = now div 1000, exp = now div 1000 + thirty_days\<rparr> (jwt_secret E)
   \<and> (later div 1000 < now div 1000 + jwt_expiresIn E \<longrightarrow>
        jwt_verify (generateToken E uid now) (jwt_secret E) later
          = Inr \<lparr>userId = uid, iat = now div 1000, exp = now div 1000 + jwt_expiresIn E\<rparr>
        \<and> refreshToken E later (Some (generateToken E uid now))
          = Inr \<lparr>user_data = None, token_data = Some (generateToken E uid later),
                 refreshToken_data = None\<rparr>
        \<and> (later div 1000 < now div 1000 + thirty_days \<longrightarrow>
             refreshToken E later (Some (generateToken E uid now))
               = refreshToken E later (Some (jwt_sign uid (jwt_secret E) thirty_days now))))"
  by (simp add: generateToken_def jwt_sign_def refreshToken_def)

theorem access_token_accepted_as_refresh_token_witness:
  "refreshToken E0 9000 (Some (generateToken E0 ''1'' 1000))
     = Inr \<lparr>user_data = None,
            token_data = Some (Jwt \<lparr>userId = ''1'', iat = 9, exp = 604809\<rparr> ''key''),
            refreshToken_data = None\<rparr>
   \<and> refreshToken E0 9000 (Some (generateToken E0 ''1'' 1000))
     = refreshToken E0 9000 (Some (jwt_sign ''1'' (jwt_secret E0) thirty_days 1000))"
proof (intro conjI)
  show "refreshToken E0 9000 (Some (generateToken E0 ''1'' 1000))
     = Inr \<lparr>user_data = None,
            token_data = Some (Jwt \<lparr>userId = ''1'', iat = 9, exp = 604809\<rparr> ''key''),
            refreshToken_data = None\<rparr>"
    using access_token_accepted_as_refresh_token [where E = E0 and uid = "''1''"
        and now = 1000 and later = 9000, THEN conjunct2, THEN conjunct2]
    by (simp add: generateToken_def jwt_sign_def E0_def)
  have a: "(9000::nat) div 1000 < 1000 div 1000 + jwt_expiresIn E0"
    by (simp add: E0_def)
  have b: "(9000::nat) div 1000 < 1000 div 1000 + thirty_days"
    by (simp add: thirty_days_def)
  from access_token_accepted_as_refresh_token [where E = E0 and uid = "''1''"
        and now = 1000 and later = 9000, THEN conjunct2, THEN conjunct2, THEN mp, OF a,
        THEN conjunct2, THEN conjunct2, THEN mp, OF b]
  show "refreshToken E0 9000 (Some (generateToken E0 ''1'' 1000))
     = refreshToken E0 9000 (Some (jwt_sign ''1'' (jwt_secret E0) thirty_days 1000))" .
qed

end
